theory Spec2Isabelle
  imports Complex_Main "HOL-Library.Code_Target_Nat"
begin

section \<open>Python strings\<close>

text \<open>
  A Python \<open>str\<close> is a sequence of code points. The model is \<open>string\<close>, where each
  \<open>char\<close> stands for the code point of the same number, so it covers the strings of
  code points below 256 (ASCII and Latin-1, which holds the non-breaking space U+00A0).
\<close>

definition code_point :: "char \<Rightarrow> nat" where
  "code_point c = of_char c"

definition in_range :: "nat \<Rightarrow> nat \<Rightarrow> char \<Rightarrow> bool" where
  "in_range lo hi c = (lo \<le> code_point c \<and> code_point c \<le> hi)"

text \<open>\<open>str.lower()\<close> on one character: A-Z, and the Latin-1 capitals but the sign U+00D7.\<close>

definition char_lower :: "char \<Rightarrow> char" where
  "char_lower c =
     (if in_range 65 90 c \<or> (in_range 192 222 c \<and> code_point c \<noteq> 215)
      then char_of (code_point c + 32) else c)"

text \<open>
  The simple upper-case mapping of one character. The capitals of U+00B5 and U+00FF lie
  beyond code point 255 and U+00DF has no single capital: the three stay as they are.
\<close>

definition char_upper :: "char \<Rightarrow> char" where
  "char_upper c =
     (if in_range 97 122 c \<or> (in_range 224 254 c \<and> code_point c \<noteq> 247)
      then char_of (code_point c - 32) else c)"

definition py_lower :: "string \<Rightarrow> string" where
  "py_lower s = map char_lower s"

text \<open>\<open>str.isspace\<close>, which is also the class \<open>\s\<close> of a \<open>str\<close> pattern.\<close>

definition py_isspace :: "char \<Rightarrow> bool" where
  "py_isspace c =
     (in_range 9 13 c \<or> in_range 28 32 c \<or> code_point c = 133 \<or> code_point c = 160)"

text \<open>The class \<open>\d\<close> of a \<open>str\<close> pattern: below code point 256 the decimal digits are 0-9.\<close>

definition py_isdigit :: "char \<Rightarrow> bool" where
  "py_isdigit c = in_range 48 57 c"

definition py_strip :: "string \<Rightarrow> string" where
  "py_strip s = rev (dropWhile py_isspace (rev (dropWhile py_isspace s)))"

text \<open>\<open>s.replace(c, '')\<close> for a one-character \<open>c\<close>.\<close>

definition remove_char :: "char \<Rightarrow> string \<Rightarrow> string" where
  "remove_char c s = filter (\<lambda>x. x \<noteq> c) s"

section \<open>The regular expressions of the source\<close>

text \<open>
  Every pattern of the source is a sequence of literals, character sets, and repetitions
  of one character set, with capture groups around some of them; every search passes
  \<open>re.IGNORECASE\<close> (and \<open>re.MULTILINE\<close>, which only changes the anchors, that no
  pattern uses). The matcher below is the backtracking matcher of \<open>re\<close> on such
  patterns: a greedy repetition takes the longest run and gives characters back one at
  a time, a lazy one starts from the shortest, and the first success wins.
\<close>

datatype atom = Chr char | Rng char char | ClsDigit | ClsSpace

type_synonym charset = "atom list"

fun atom_ok :: "atom \<Rightarrow> char \<Rightarrow> bool" where
  "atom_ok (Chr p) c = (c = p)"
| "atom_ok (Rng lo hi) c = in_range (code_point lo) (code_point hi) c"
| "atom_ok ClsDigit c = py_isdigit c"
| "atom_ok ClsSpace c = py_isspace c"

text \<open>Under \<open>re.IGNORECASE\<close> a character is in a set when it or its other case is.\<close>

definition set_ok :: "charset \<Rightarrow> char \<Rightarrow> bool" where
  "set_ok cs c =
     list_ex (\<lambda>a. atom_ok a c \<or> atom_ok a (char_lower c) \<or> atom_ok a (char_upper c)) cs"

definition lit_ok :: "char \<Rightarrow> char \<Rightarrow> bool" where
  "lit_ok p c = (char_lower c = char_lower p)"

datatype item =
    Lit char
  | One charset
  | Rep nat charset
  | Star charset
  | Plus charset
  | PlusLazy charset
  | Opt char
  | GOpen
  | GClose

definition lits :: "string \<Rightarrow> item list" where
  "lits s = map Lit s"

definition run :: "charset \<Rightarrow> string \<Rightarrow> nat" where
  "run cs s = length (takeWhile (set_ok cs) s)"

primrec first_some :: "(nat \<Rightarrow> 'a option) \<Rightarrow> nat list \<Rightarrow> 'a option" where
  "first_some f [] = None"
| "first_some f (k # ks) = (case f k of Some r \<Rightarrow> Some r | None \<Rightarrow> first_some f ks)"

text \<open>
  The state of a match: the input at the opening of the group being captured, and the
  groups captured so far. The result is the groups and the input left after the match.
\<close>

type_synonym mstate = "string option \<times> string list"

fun rx :: "item list \<Rightarrow> string \<Rightarrow> mstate \<Rightarrow> (string list \<times> string) option" where
  "rx [] s st = Some (snd st, s)"
| "rx (Lit p # r) s st =
     (case s of [] \<Rightarrow> None | c # t \<Rightarrow> if lit_ok p c then rx r t st else None)"
| "rx (One cs # r) s st =
     (case s of [] \<Rightarrow> None | c # t \<Rightarrow> if set_ok cs c then rx r t st else None)"
| "rx (Rep n cs # r) s st =
     (if n \<le> length s \<and> list_all (set_ok cs) (take n s) then rx r (drop n s) st else None)"
| "rx (Star cs # r) s st =
     first_some (\<lambda>k. rx r (drop k s) st) (rev [0..<Suc (run cs s)])"
| "rx (Plus cs # r) s st =
     first_some (\<lambda>k. rx r (drop k s) st) (rev [1..<Suc (run cs s)])"
| "rx (PlusLazy cs # r) s st =
     first_some (\<lambda>k. rx r (drop k s) st) [1..<Suc (run cs s)]"
| "rx (Opt p # r) s st =
     (case (case s of [] \<Rightarrow> None | c # t \<Rightarrow> if lit_ok p c then rx r t st else None) of
        Some m \<Rightarrow> Some m
      | None \<Rightarrow> rx r s st)"
| "rx (GOpen # r) s st = rx r s (Some s, snd st)"
| "rx (GClose # r) s st =
     (case fst st of
        None \<Rightarrow> rx r s st
      | Some s0 \<Rightarrow> rx r s (None, snd st @ [take (length s0 - length s) s0]))"

text \<open>
  \<open>re.search\<close>: the match at the leftmost position that has one. The result is
  \<open>group(0)\<close> and the list of the capture groups.
\<close>

fun re_search :: "item list \<Rightarrow> string \<Rightarrow> (string \<times> string list) option" where
  "re_search p s =
     (case rx p s (None, []) of
        Some (caps, rest) \<Rightarrow> Some (take (length s - length rest) s, caps)
      | None \<Rightarrow> (case s of [] \<Rightarrow> None | c # t \<Rightarrow> re_search p t))"

declare re_search.simps [simp del]

section \<open>The identifier extractor\<close>

text \<open>The set \<open>[0-9a-f]\<close> and the pattern of \<open>extract_uuid_from_url\<close>.\<close>

definition hex_set :: charset where
  "hex_set = [Rng CHR ''0'' CHR ''9'', Rng CHR ''a'' CHR ''f'']"

definition uuid_pattern :: "item list" where
  "uuid_pattern =
     [Rep 8 hex_set, Lit CHR ''-'', Rep 4 hex_set, Lit CHR ''-'', Rep 4 hex_set,
      Lit CHR ''-'', Rep 4 hex_set, Lit CHR ''-'', Rep 12 hex_set]"

definition extract_uuid_from_url :: "string \<Rightarrow> string option" where
  "extract_uuid_from_url url =
     (case re_search uuid_pattern url of
        Some (g0, caps) \<Rightarrow> Some (py_lower g0)
      | None \<Rightarrow> None)"

text \<open>
  The shape the specification names: groups of hexadecimal digits of the given lengths,
  in either letter case, with a hyphen between two groups.
\<close>

definition is_hex :: "char \<Rightarrow> bool" where
  "is_hex c = (in_range 48 57 c \<or> in_range 97 102 c \<or> in_range 65 70 c)"

fun hyphenated :: "nat list \<Rightarrow> string \<Rightarrow> bool" where
  "hyphenated [] w = False"
| "hyphenated [n] w = (length w = n \<and> list_all is_hex w)"
| "hyphenated (n # m # ns) w =
     (n < length w \<and> list_all is_hex (take n w) \<and> w ! n = CHR ''-'' \<and>
      hyphenated (m # ns) (drop (Suc n) w))"

definition uuid_shape :: "string \<Rightarrow> bool" where
  "uuid_shape w = hyphenated [8, 4, 4, 4, 12] w"

definition has_uuid :: "string \<Rightarrow> bool" where
  "has_uuid s = (\<exists>pre w post. s = pre @ w @ post \<and> uuid_shape w)"

section \<open>Exceptions\<close>

text \<open>
  An exception is its class and its message (\<open>str(e)\<close>). The model holds the subclasses
  of \<open>Exception\<close>, which is what \<open>except Exception\<close> catches.
\<close>

datatype exn_class =
    ValueError | TypeError | ImportError | RequestException | IntegrityError | UserError
  | OtherError

datatype exn = Exn exn_class string

fun exn_str :: "exn \<Rightarrow> string" where
  "exn_str (Exn k msg) = msg"

fun exn_kind :: "exn \<Rightarrow> exn_class" where
  "exn_kind (Exn k msg) = k"

section \<open>Library functions: \<open>float\<close> and \<open>datetime.strptime\<close>\<close>

text \<open>
  A Python float is modelled by its exact value: the rounding of \<open>float\<close> to binary64
  and the overflow to infinity are not modelled.
\<close>

datatype pyfloat = Finite rat | PosInf | NegInf | NaN

fun float_truth :: "pyfloat \<Rightarrow> bool" where
  "float_truth (Finite r) = (r \<noteq> 0)"
| "float_truth f = True"

definition digit_val :: "char \<Rightarrow> nat" where
  "digit_val c = code_point c - 48"

definition dec_val :: "string \<Rightarrow> nat" where
  "dec_val ds = foldl (\<lambda>a c. 10 * a + digit_val c) 0 ds"

text \<open>The same value as an integer, for the digit runs of a float literal.\<close>

definition dec_int :: "string \<Rightarrow> int" where
  "dec_int ds = foldl (\<lambda>a c. 10 * a + int (digit_val c)) 0 ds"

definition ascii_digit :: "char \<Rightarrow> bool" where
  "ascii_digit c = in_range 48 57 c"

text \<open>The white space of C (\<open>Py_ISSPACE\<close>), which \<open>float\<close> strips.\<close>

definition c_isspace :: "char \<Rightarrow> bool" where
  "c_isspace c = (in_range 9 13 c \<or> code_point c = 32)"

text \<open>
  \<open>float\<close> of a string first replaces, in a string that is not pure ASCII, the white
  space beyond ASCII by a blank and cuts the string at the first other character beyond
  ASCII, which becomes a question mark.
\<close>

fun to_ascii :: "string \<Rightarrow> string" where
  "to_ascii [] = []"
| "to_ascii (c # cs) =
     (if code_point c < 127 then c # to_ascii cs
      else if py_isspace c then CHR '' '' # to_ascii cs
      else ''?'')"

definition transform_decimal_and_space :: "string \<Rightarrow> string" where
  "transform_decimal_and_space s = (if list_all (\<lambda>c. code_point c < 128) s then s else to_ascii s)"

text \<open>An underscore is allowed between two digits only, and is dropped.\<close>

fun drop_underscores :: "char \<Rightarrow> string \<Rightarrow> string option" where
  "drop_underscores prev [] = (if prev = CHR ''_'' then None else Some [])"
| "drop_underscores prev (c # cs) =
     (if c = CHR ''_'' then (if ascii_digit prev then drop_underscores c cs else None)
      else if prev = CHR ''_'' \<and> \<not> ascii_digit c then None
      else map_option ((#) c) (drop_underscores c cs))"

definition c_strip :: "string \<Rightarrow> string" where
  "c_strip s = rev (dropWhile c_isspace (rev (dropWhile c_isspace s)))"

definition scale10 :: "int \<Rightarrow> int \<Rightarrow> rat" where
  "scale10 m e = (if 0 \<le> e then of_int m * 10 ^ nat e else of_int m / 10 ^ nat (- e))"

text \<open>
  The exponent of a decimal literal: \<open>e\<close> or \<open>E\<close>, an optional sign and at least one
  digit. The result is the exponent and the input after it; an exponent that has no
  digit is not read at all.
\<close>

definition read_exponent :: "string \<Rightarrow> int \<times> string" where
  "read_exponent s =
     (case s of
        [] \<Rightarrow> (0, s)
      | c # t \<Rightarrow>
          if c = CHR ''e'' \<or> c = CHR ''E'' then
            (let neg = (t \<noteq> [] \<and> hd t = CHR ''-'');
                 u = (if t \<noteq> [] \<and> (hd t = CHR ''-'' \<or> hd t = CHR ''+'') then tl t else t);
                 ds = takeWhile ascii_digit u
             in if ds = [] then (0, s)
                else ((if neg then - dec_int ds else dec_int ds),
                      dropWhile ascii_digit u))
          else (0, s))"

definition read_number :: "string \<Rightarrow> pyfloat option" where
  "read_number s =
     (let neg = (s \<noteq> [] \<and> hd s = CHR ''-'');
          u = (if s \<noteq> [] \<and> (hd s = CHR ''-'' \<or> hd s = CHR ''+'') then tl s else s);
          d1 = takeWhile ascii_digit u;
          r1 = dropWhile ascii_digit u;
          d2 = (if r1 \<noteq> [] \<and> hd r1 = CHR ''.'' then takeWhile ascii_digit (tl r1) else []);
          r2 = (if r1 \<noteq> [] \<and> hd r1 = CHR ''.'' then dropWhile ascii_digit (tl r1) else r1)
      in if d1 @ d2 = [] then
           (if py_lower u = ''inf'' \<or> py_lower u = ''infinity''
            then Some (if neg then NegInf else PosInf)
            else if py_lower u = ''nan'' then Some NaN
            else None)
         else
           (case read_exponent r2 of
              (e, r3) \<Rightarrow>
                if r3 = [] then
                  (let v = scale10 (dec_int (d1 @ d2)) (e - int (length d2))
                   in Some (Finite (if neg then - v else v)))
                else None))"

definition py_float :: "string \<Rightarrow> exn + pyfloat" where
  "py_float s =
     (case (if CHR ''_'' \<in> set s then drop_underscores (CHR 0x00) (transform_decimal_and_space s)
            else Some (transform_decimal_and_space s)) of
        None \<Rightarrow> Inl (Exn ValueError ''could not convert string to float'')
      | Some t \<Rightarrow>
          (case read_number (c_strip t) of
             None \<Rightarrow> Inl (Exn ValueError ''could not convert string to float'')
           | Some f \<Rightarrow> Inr f))"


record date =
  year :: nat
  month :: nat
  day :: nat

definition is_leap :: "nat \<Rightarrow> bool" where
  "is_leap y = (y mod 4 = 0 \<and> (y mod 100 \<noteq> 0 \<or> y mod 400 = 0))"

definition days_in_month :: "nat \<Rightarrow> nat \<Rightarrow> nat" where
  "days_in_month y m =
     (if m = 2 then (if is_leap y then 29 else 28)
      else if m = 4 \<or> m = 6 \<or> m = 9 \<or> m = 11 then 30 else 31)"

text \<open>
  \<open>datetime.strptime(s, '%d/%m/%Y').date()\<close>. The format is the regular expression
  \<open>(3[0-1]|[1-2]\d|0[1-9]|[1-9]| [1-9])/(1[0-2]|0[1-9]|[1-9])/(\d\d\d\d)\<close>, matched at the
  start of the string; the alternatives of a directive are tried in this order. Then
  the whole string must have been read, and the numbers must be a calendar date.
\<close>

definition day_alternatives :: "string \<Rightarrow> (nat \<times> string) list" where
  "day_alternatives s =
     (case s of
        a # b # t \<Rightarrow>
          (if a = CHR ''3'' \<and> in_range 48 49 b then [(30 + digit_val b, t)] else []) @
          (if in_range 49 50 a \<and> py_isdigit b then [(10 * digit_val a + digit_val b, t)] else []) @
          (if a = CHR ''0'' \<and> in_range 49 57 b then [(digit_val b, t)] else []) @
          (if in_range 49 57 a then [(digit_val a, b # t)] else []) @
          (if a = CHR '' '' \<and> in_range 49 57 b then [(digit_val b, t)] else [])
      | [a] \<Rightarrow> (if in_range 49 57 a then [(digit_val a, [])] else [])
      | [] \<Rightarrow> [])"

definition month_alternatives :: "string \<Rightarrow> (nat \<times> string) list" where
  "month_alternatives s =
     (case s of
        a # b # t \<Rightarrow>
          (if a = CHR ''1'' \<and> in_range 48 50 b then [(10 + digit_val b, t)] else []) @
          (if a = CHR ''0'' \<and> in_range 49 57 b then [(digit_val b, t)] else []) @
          (if in_range 49 57 a then [(digit_val a, b # t)] else [])
      | [a] \<Rightarrow> (if in_range 49 57 a then [(digit_val a, [])] else [])
      | [] \<Rightarrow> [])"

definition year_directive :: "string \<Rightarrow> (nat \<times> string) option" where
  "year_directive s =
     (if 4 \<le> length s \<and> list_all py_isdigit (take 4 s)
      then Some (dec_val (take 4 s), drop 4 s) else None)"

definition after_slash :: "string \<Rightarrow> string option" where
  "after_slash s = (case s of [] \<Rightarrow> None | c # t \<Rightarrow> if c = CHR ''/'' then Some t else None)"

definition month_year :: "string \<Rightarrow> (nat \<times> nat \<times> string) option" where
  "month_year s =
     (case List.find (\<lambda>(m, r). (case after_slash r of None \<Rightarrow> False
                                   | Some r' \<Rightarrow> year_directive r' \<noteq> None))
             (month_alternatives s) of
        None \<Rightarrow> None
      | Some (m, r) \<Rightarrow>
          (case after_slash r of
             None \<Rightarrow> None
           | Some r' \<Rightarrow>
               (case year_directive r' of None \<Rightarrow> None | Some (y, rest) \<Rightarrow> Some (m, y, rest))))"

definition match_dmy :: "string \<Rightarrow> (nat \<times> nat \<times> nat \<times> string) option" where
  "match_dmy s =
     (case List.find (\<lambda>(d, r). (case after_slash r of None \<Rightarrow> False
                                   | Some r' \<Rightarrow> month_year r' \<noteq> None))
             (day_alternatives s) of
        None \<Rightarrow> None
      | Some (d, r) \<Rightarrow>
          (case after_slash r of
             None \<Rightarrow> None
           | Some r' \<Rightarrow>
               (case month_year r' of None \<Rightarrow> None | Some (m, y, rest) \<Rightarrow> Some (d, m, y, rest))))"

definition strptime_dmy :: "string \<Rightarrow> exn + date" where
  "strptime_dmy s =
     (case match_dmy s of
        None \<Rightarrow> Inl (Exn ValueError (''time data does not match format''))
      | Some (d, m, y, rest) \<Rightarrow>
          if rest \<noteq> [] then Inl (Exn ValueError ''unconverted data remains'')
          else if y = 0 then Inl (Exn ValueError ''year 0 is out of range'')
          else if days_in_month y m < d then Inl (Exn ValueError ''day is out of range for month'')
          else Inr \<lparr>year = y, month = m, day = d\<rparr>)"

section \<open>The content extractor\<close>

text \<open>
  A value of a field that may come from a JSON body: a string, or any other object, kept
  as what the code observes of it, its text \<open>str(v)\<close> and its truth value.
\<close>

datatype pyobj = PyStr string | PyObj string bool

fun obj_str :: "pyobj \<Rightarrow> string" where
  "obj_str (PyStr s) = s"
| "obj_str (PyObj s b) = s"

fun obj_truth :: "pyobj \<Rightarrow> bool" where
  "obj_truth (PyStr s) = (s \<noteq> [])"
| "obj_truth (PyObj s b) = b"

text \<open>The dictionary that the fetchers return; an absent key is \<open>None\<close>.\<close>

record dgi_data =
  d_raw_html :: "string option"
  d_text_content :: "string option"
  d_success :: bool
  d_error :: "string option"
  d_supplier_name :: "pyobj option"
  d_supplier_code_dgi :: "string option"
  d_customer_name :: "string option"
  d_customer_code_dgi :: "string option"
  d_invoice_number_dgi :: "pyobj option"
  d_invoice_date :: "date option"
  d_verification_id :: "string option"
  d_amount_ttc :: "pyfloat option"

definition empty_data :: dgi_data where
  "empty_data =
     \<lparr>d_raw_html = None, d_text_content = None, d_success = False, d_error = None,
      d_supplier_name = None, d_supplier_code_dgi = None, d_customer_name = None,
      d_customer_code_dgi = None, d_invoice_number_dgi = None, d_invoice_date = None,
      d_verification_id = None, d_amount_ttc = None\<rparr>"

definition newline :: char where
  "newline = CHR 0x0A"

definition nbsp :: char where
  "nbsp = CHR 0xA0"

text \<open>The prefix \<open>\s*\n*\s*\<close> that follows every label.\<close>

definition gap :: "item list" where
  "gap = [Star [ClsSpace], Star [Chr newline], Star [ClsSpace]]"

definition name_set :: charset where
  "name_set =
     [Rng CHR ''A'' CHR ''Z'', Rng CHR ''0'' CHR ''9'', ClsSpace, Chr CHR ''-'', Chr CHR ''.'',
      Chr CHR ''&'', Chr (CHR 0x27)]"

definition code_set :: charset where
  "code_set = [Rng CHR ''A'' CHR ''Z'', Rng CHR ''0'' CHR ''9'']"

definition party_pattern :: "string \<Rightarrow> item list" where
  "party_pattern label =
     lits label @ gap @
     [GOpen, PlusLazy name_set, GClose, Star [ClsSpace], Lit CHR ''-'', Star [ClsSpace],
      GOpen, Plus code_set, GClose]"

definition supplier_pattern :: "item list" where
  "supplier_pattern = party_pattern ''FOURNISSEUR:''"

definition client_pattern :: "item list" where
  "client_pattern = party_pattern ''CLIENT:''"

definition invoice_pattern :: "item list" where
  "invoice_pattern = lits ''NUMERO DE FACTURE:'' @ gap @ [GOpen, Plus code_set, GClose]"

definition date_pattern :: "item list" where
  "date_pattern =
     lits ''DATE DE FACTURATION:'' @ gap @
     [GOpen, Rep 2 [ClsDigit], Lit CHR ''/'', Rep 2 [ClsDigit], Lit CHR ''/'', Rep 4 [ClsDigit],
      GClose]"

definition verif_pattern :: "item list" where
  "verif_pattern =
     lits ''ID VERIFICATION:'' @ gap @
     [GOpen, Plus [Rng CHR ''A'' CHR ''Z'', Rng CHR ''0'' CHR ''9'', Chr CHR ''-''], GClose]"

definition amount_pattern :: "item list" where
  "amount_pattern =
     lits ''MONTANT TTC:'' @ gap @
     [GOpen, Plus [ClsDigit, ClsSpace], GClose, Star [ClsSpace], Opt CHR ''F'',
      Lit CHR ''C'', Lit CHR ''F'', Lit CHR ''A'']"

text \<open>
  \<open>match.group(n)\<close>; every group of these patterns takes part in every match.
\<close>

definition group :: "string \<times> string list \<Rightarrow> nat \<Rightarrow> string" where
  "group m n = (if n = 0 then fst m else snd m ! (n - 1))"

text \<open>The steps of \<open>_extract_dgi_data_from_text\<close>, in the order of the source.\<close>

definition extract_supplier :: "string \<Rightarrow> dgi_data \<Rightarrow> dgi_data" where
  "extract_supplier text_content data =
     (case re_search supplier_pattern text_content of
        None \<Rightarrow> data
      | Some m \<Rightarrow> data\<lparr>d_supplier_name := Some (PyStr (py_strip (group m 1))),
                       d_supplier_code_dgi := Some (py_strip (group m 2))\<rparr>)"

definition extract_client :: "string \<Rightarrow> dgi_data \<Rightarrow> dgi_data" where
  "extract_client text_content data =
     (case re_search client_pattern text_content of
        None \<Rightarrow> data
      | Some m \<Rightarrow> data\<lparr>d_customer_name := Some (py_strip (group m 1)),
                       d_customer_code_dgi := Some (py_strip (group m 2))\<rparr>)"

definition extract_invoice_number :: "string \<Rightarrow> dgi_data \<Rightarrow> dgi_data" where
  "extract_invoice_number text_content data =
     (case re_search invoice_pattern text_content of
        None \<Rightarrow> data
      | Some m \<Rightarrow> data\<lparr>d_invoice_number_dgi := Some (PyStr (py_strip (group m 1)))\<rparr>)"

definition extract_date :: "string \<Rightarrow> dgi_data \<Rightarrow> exn + dgi_data" where
  "extract_date text_content data =
     (case re_search date_pattern text_content of
        None \<Rightarrow> Inr data
      | Some m \<Rightarrow>
          (case strptime_dmy (group m 1) of
             Inl e \<Rightarrow> Inl e
           | Inr d \<Rightarrow> Inr (data\<lparr>d_invoice_date := Some d\<rparr>)))"

definition extract_verification :: "string \<Rightarrow> dgi_data \<Rightarrow> dgi_data" where
  "extract_verification text_content data =
     (case re_search verif_pattern text_content of
        None \<Rightarrow> data
      | Some m \<Rightarrow> data\<lparr>d_verification_id := Some (py_strip (group m 1))\<rparr>)"

text \<open>The amount: the capture without blanks and non-breaking spaces, as a float.\<close>

definition amount_of_text :: "string \<Rightarrow> exn + pyfloat option" where
  "amount_of_text text_content =
     (case re_search amount_pattern text_content of
        None \<Rightarrow> Inr None
      | Some m \<Rightarrow>
          (case py_float (py_strip (remove_char nbsp (remove_char CHR '' '' (group m 1)))) of
             Inl e \<Rightarrow> Inl e
           | Inr f \<Rightarrow> Inr (Some f)))"

definition extract_amount :: "string \<Rightarrow> dgi_data \<Rightarrow> exn + dgi_data" where
  "extract_amount text_content data =
     (case amount_of_text text_content of
        Inl e \<Rightarrow> Inl e
      | Inr None \<Rightarrow> Inr data
      | Inr (Some f) \<Rightarrow> Inr (data\<lparr>d_amount_ttc := Some f\<rparr>))"

definition extract_dgi_data_from_text :: "string \<Rightarrow> string \<Rightarrow> exn + dgi_data" where
  "extract_dgi_data_from_text text_content raw_html =
     (let data = empty_data
            \<lparr>d_raw_html := Some (if raw_html \<noteq> [] then take 5000 raw_html else []),
             d_text_content := Some (take 3000 text_content),
             d_success := True\<rparr>;
          data = extract_supplier text_content data;
          data = extract_client text_content data;
          data = extract_invoice_number text_content data
      in case extract_date text_content data of
           Inl e \<Rightarrow> Inl e
         | Inr data \<Rightarrow> extract_amount text_content (extract_verification text_content data))"


section \<open>The fast path: \<open>_fetch_dgi_with_requests\<close>\<close>

text \<open>\<open>str.upper()\<close>: the sharp s becomes two letters.\<close>

definition py_upper :: "string \<Rightarrow> string" where
  "py_upper s = concat (map (\<lambda>c. if code_point c = 223 then ''SS'' else [char_upper c]) s)"

text \<open>\<open>needle in hay\<close> for two strings.\<close>

fun contains :: "string \<Rightarrow> string \<Rightarrow> bool" where
  "contains needle [] = (needle = [])"
| "contains needle (c # t) = (take (length needle) (c # t) = needle \<or> contains needle t)"

definition has_markers :: "string \<Rightarrow> bool" where
  "has_markers text_content =
     (contains ''FOURNISSEUR'' (py_upper text_content) \<or>
      contains ''NUMERO DE FACTURE'' (py_upper text_content))"

text \<open>
  The transport. A call of \<open>requests.get\<close> raises or returns a response; a response
  has a status, its text, the visible text that \<open>BeautifulSoup\<close> reads from it, and
  what \<open>resp.json()\<close> does: it raises or returns a value, a dictionary (with its text
  \<open>str(json_data)\<close>) or something else (with its truth value).
\<close>

datatype json_value = JsonDict string "(string \<times> pyobj) list" | JsonOther bool

datatype json_result = JsonRaises exn | JsonReturns json_value

record http_response =
  status_code :: int
  resp_text :: string
  visible_text :: string
  resp_json :: json_result

datatype http_outcome = HttpRaises exn | HttpReturns http_response

definition api_urls :: "string \<Rightarrow> string list" where
  "api_urls uuid =
     [''https://www.services.fne.dgi.gouv.ci/api/verification/'' @ uuid,
      ''https://www.services.fne.dgi.gouv.ci/api/v1/verification/'' @ uuid]"

text \<open>
  The three loops that map the keys of the JSON body. Each key that is present
  overwrites the field; the conversion of an amount raises \<open>ValueError\<close> at the first
  present key whose text is no float.
\<close>

fun map_text_keys :: "(string \<times> pyobj) list \<Rightarrow> string list \<Rightarrow> pyobj option \<Rightarrow> pyobj option" where
  "map_text_keys items [] cur = cur"
| "map_text_keys items (k # ks) cur =
     (case map_of items k of
        None \<Rightarrow> map_text_keys items ks cur
      | Some v \<Rightarrow> map_text_keys items ks (Some v))"

fun map_amount_keys ::
  "(string \<times> pyobj) list \<Rightarrow> string list \<Rightarrow> pyfloat option \<Rightarrow> exn + pyfloat option" where
  "map_amount_keys items [] cur = Inr cur"
| "map_amount_keys items (k # ks) cur =
     (case map_of items k of
        None \<Rightarrow> map_amount_keys items ks cur
      | Some v \<Rightarrow>
          (case py_float (remove_char CHR '' '' (obj_str v)) of
             Inl e \<Rightarrow> Inl e
           | Inr f \<Rightarrow> map_amount_keys items ks (Some f)))"

definition truthy_obj :: "pyobj option \<Rightarrow> bool" where
  "truthy_obj v = (case v of None \<Rightarrow> False | Some x \<Rightarrow> obj_truth x)"

definition truthy_float :: "pyfloat option \<Rightarrow> bool" where
  "truthy_float v = (case v of None \<Rightarrow> False | Some x \<Rightarrow> float_truth x)"

text \<open>
  The body of the inner \<open>try\<close> for one URL of the direct API: an exception, a
  dictionary to return, or nothing (the loop goes on).
\<close>

definition api_attempt :: "(string \<Rightarrow> http_outcome) \<Rightarrow> string \<Rightarrow> exn + dgi_data option" where
  "api_attempt http_get api_url =
     (case http_get api_url of
        HttpRaises e \<Rightarrow> Inl e
      | HttpReturns resp \<Rightarrow>
          if status_code resp = 200 then
            (case resp_json resp of
               JsonRaises e \<Rightarrow> Inl e
             | JsonReturns (JsonOther b) \<Rightarrow> Inr None
             | JsonReturns (JsonDict txt items) \<Rightarrow>
                 if items \<noteq> [] then
                   (let data = empty_data\<lparr>d_success := True, d_raw_html := Some [],
                                 d_text_content := Some (take 3000 txt)\<rparr>;
                        data = data\<lparr>d_supplier_name :=
                                 map_text_keys items [''supplier_name'', ''fournisseur'', ''supplierName'']
                                   (d_supplier_name data)\<rparr>
                    in case map_amount_keys items
                              [''amount_ttc'', ''montantTtc'', ''montant_ttc'', ''totalAmount'']
                              (d_amount_ttc data) of
                         Inl e \<Rightarrow> Inl e
                       | Inr amount \<Rightarrow>
                           (let data = data\<lparr>d_amount_ttc := amount\<rparr>;
                                data = data\<lparr>d_invoice_number_dgi :=
                                  map_text_keys items
                                    [''invoice_number'', ''invoiceNumber'', ''numero_facture'']
                                    (d_invoice_number_dgi data)\<rparr>
                            in if truthy_obj (d_supplier_name data) \<or> truthy_float (d_amount_ttc data)
                               then Inr (Some data) else Inr None))
                 else Inr None)
          else Inr None)"

text \<open>The inner handler: \<open>except (requests.exceptions.RequestException, ValueError): continue\<close>.\<close>

definition api_attempt_handled :: "(string \<Rightarrow> http_outcome) \<Rightarrow> string \<Rightarrow> exn + dgi_data option" where
  "api_attempt_handled http_get api_url =
     (case api_attempt http_get api_url of
        Inl e \<Rightarrow> if exn_kind e = RequestException \<or> exn_kind e = ValueError then Inr None else Inl e
      | Inr r \<Rightarrow> Inr r)"

fun api_loop :: "(string \<Rightarrow> http_outcome) \<Rightarrow> string list \<Rightarrow> exn + dgi_data option" where
  "api_loop http_get [] = Inr None"
| "api_loop http_get (u # us) =
     (case api_attempt_handled http_get u of
        Inl e \<Rightarrow> Inl e
      | Inr (Some data) \<Rightarrow> Inr (Some data)
      | Inr None \<Rightarrow> api_loop http_get us)"

text \<open>The second attempt: the page itself, when its visible text has the markers.\<close>

definition html_attempt :: "(string \<Rightarrow> http_outcome) \<Rightarrow> string \<Rightarrow> exn + dgi_data option" where
  "html_attempt http_get url =
     (case http_get url of
        HttpRaises e \<Rightarrow> Inl e
      | HttpReturns resp \<Rightarrow>
          if status_code resp = 200 \<and> has_markers (visible_text resp) then
            (case extract_dgi_data_from_text (visible_text resp) (resp_text resp) of
               Inl e \<Rightarrow> Inl e
             | Inr data \<Rightarrow> Inr (Some data))
          else Inr None)"

text \<open>The body of the outer \<open>try\<close>.\<close>

definition requests_body :: "(string \<Rightarrow> http_outcome) \<Rightarrow> string \<Rightarrow> exn + dgi_data option" where
  "requests_body http_get url =
     (case (case extract_uuid_from_url url of
              None \<Rightarrow> Inr None
            | Some uuid \<Rightarrow> if uuid \<noteq> [] then api_loop http_get (api_urls uuid) else Inr None) of
        Inl e \<Rightarrow> Inl e
      | Inr (Some data) \<Rightarrow> Inr (Some data)
      | Inr None \<Rightarrow> html_attempt http_get url)"

text \<open>The outer handler: \<open>except Exception\<close> logs and returns \<open>None\<close>.\<close>

definition fetch_dgi_with_requests :: "(string \<Rightarrow> http_outcome) \<Rightarrow> string \<Rightarrow> exn + dgi_data option" where
  "fetch_dgi_with_requests http_get url =
     (case requests_body http_get url of
        Inl e \<Rightarrow> Inr None
      | Inr r \<Rightarrow> Inr r)"

section \<open>The render path\<close>

datatype browser = Browser nat

datatype launch_event = Launch nat | Sleep nat

text \<open>
  \<open>_launch_playwright_browser\<close>: the loop over \<open>range(1, max_retries + 1)\<close>, with the
  launch attempts and the sleeps (in seconds) that it makes. \<open>launch\<close> is what the
  launch of Chromium does at each attempt. With no attempt at all, \<open>raise last_error\<close>
  raises \<open>None\<close>, which is a \<open>TypeError\<close>.
\<close>

function launch_from ::
  "(nat \<Rightarrow> exn + browser) \<Rightarrow> nat \<Rightarrow> nat \<Rightarrow> exn option \<Rightarrow> (exn + browser) \<times> launch_event list" where
  "launch_from launch max_retries attempt last_error =
     (if max_retries < attempt then
        (case last_error of
           None \<Rightarrow> (Inl (Exn TypeError ''exceptions must derive from BaseException''), [])
         | Some e \<Rightarrow> (Inl e, []))
      else
        (case launch attempt of
           Inr b \<Rightarrow> (Inr b, [Launch attempt])
         | Inl e \<Rightarrow>
             (let (r, evs) = launch_from launch max_retries (Suc attempt) (Some e)
              in (r, Launch attempt #
                     (if attempt < max_retries then [Sleep (attempt * 3)] else []) @ evs))))"
  by pat_completeness auto
termination
  by (relation "measure (\<lambda>(launch, max_retries, attempt, last_error). Suc max_retries - attempt)") auto

declare launch_from.simps [simp del]

definition launch_playwright_browser ::
  "(nat \<Rightarrow> exn + browser) \<Rightarrow> nat \<Rightarrow> (exn + browser) \<times> launch_event list" where
  "launch_playwright_browser launch max_retries = launch_from launch max_retries 1 None"

text \<open>
  The browser automation, as far as the fetch observes it: the import of the library
  and the start of the session may raise, as may each launch attempt, the opening of
  the context and of the page, the navigation, each read of the body text (after a
  wait of two seconds) and the read of the page content. The source swallows what
  \<open>close()\<close> raises, so closing is not part of the model.
\<close>

record playwright =
  pw_import :: "exn option"
  pw_start :: "exn option"
  pw_launch :: "nat \<Rightarrow> exn + browser"
  pw_new_page :: "exn option"
  pw_goto :: "string \<Rightarrow> exn option"
  pw_inner_text :: "nat \<Rightarrow> exn + string"
  pw_content :: "exn + string"

text \<open>The loop \<open>for attempt in range(max_attempts)\<close> that waits for the markers.\<close>

fun poll_body :: "(nat \<Rightarrow> exn + string) \<Rightarrow> nat \<Rightarrow> nat \<Rightarrow> string \<Rightarrow> exn + string" where
  "poll_body inner_text attempt 0 text_content = Inr text_content"
| "poll_body inner_text attempt (Suc k) text_content =
     (case inner_text attempt of
        Inl e \<Rightarrow> Inl e
      | Inr t \<Rightarrow> if has_markers t then Inr t else poll_body inner_text (Suc attempt) k t)"

text \<open>The \<open>with sync_playwright()\<close> block: the body text and the truncated markup.\<close>

definition render_page :: "playwright \<Rightarrow> string \<Rightarrow> exn + (string \<times> string)" where
  "render_page pw url =
     (case pw_import pw of
        Some e \<Rightarrow> Inl e
      | None \<Rightarrow>
     (case pw_start pw of
        Some e \<Rightarrow> Inl e
      | None \<Rightarrow>
     (case fst (launch_playwright_browser (pw_launch pw) 3) of
        Inl e \<Rightarrow> Inl e
      | Inr b \<Rightarrow>
     (case pw_new_page pw of
        Some e \<Rightarrow> Inl e
      | None \<Rightarrow>
     (case pw_goto pw url of
        Some e \<Rightarrow> Inl e
      | None \<Rightarrow>
     (case poll_body (pw_inner_text pw) 0 15 [] of
        Inl e \<Rightarrow> Inl e
      | Inr text_content \<Rightarrow>
     (case pw_content pw of
        Inl e \<Rightarrow> Inl e
      | Inr html \<Rightarrow> Inr (text_content, take 5000 html))))))))"

definition failure :: "string \<Rightarrow> dgi_data" where
  "failure msg = empty_data\<lparr>d_success := False, d_error := Some msg\<rparr>"

definition msg_not_installed :: string where
  "msg_not_installed = ''Playwright non install'' @ [CHR 0xE9] @ '' sur le serveur''"

definition msg_crash :: "string \<Rightarrow> string" where
  "msg_crash error_msg =
     ''Erreur: Le navigateur Chromium a crash'' @ [CHR 0xE9] @ '' sur le serveur. '' @
     ''Causes possibles: m'' @ [CHR 0xE9] @ ''moire insuffisante, /dev/shm trop petit '' @
     ''(Docker: ajouter --shm-size=256m), ou binaire Chromium corrompu '' @
     ''(r'' @ [CHR 0xE9] @ ''installer: playwright install chromium). D'' @ [CHR 0xE9] @
     ''tail: '' @ error_msg"

text \<open>The handlers of \<open>fetch_invoice_data_from_dgi\<close>.\<close>

definition render_failure :: "exn \<Rightarrow> dgi_data" where
  "render_failure e =
     (if exn_kind e = ImportError then failure msg_not_installed
      else if contains ''Target page, context or browser has been closed'' (exn_str e) \<or>
              contains ''SIGTRAP'' (exn_str e)
      then failure (msg_crash (exn_str e))
      else failure (''Erreur: '' @ exn_str e))"

definition render_fetch :: "playwright \<Rightarrow> string \<Rightarrow> dgi_data" where
  "render_fetch pw url =
     (case render_page pw url of
        Inl e \<Rightarrow> render_failure e
      | Inr (text_content, raw_html) \<Rightarrow>
          (case extract_dgi_data_from_text text_content raw_html of
             Inl e \<Rightarrow> render_failure e
           | Inr data \<Rightarrow> data))"

section \<open>Records, the store and the environment\<close>

datatype scan_state = Draft | Done | Processed | Error

text \<open>
  A scan record, with the fields that the modelled operations read or write. A
  timestamp is a number; a user, a partner, a company and an invoice are identifiers.
\<close>

record scan_record =
  rec_id :: nat
  reference :: string
  qr_uuid :: string
  qr_url :: string
  supplier_name :: "string option"
  supplier_code_dgi :: "string option"
  customer_name :: "string option"
  customer_code_dgi :: "string option"
  invoice_number_dgi :: "string option"
  invoice_date :: "date option"
  verification_id :: "string option"
  amount_ttc :: pyfloat
  invoice_id :: "nat option"
  partner_id :: "nat option"
  state :: scan_state
  error_message :: "string option"
  duplicate_count :: int
  last_duplicate_attempt :: "nat option"
  last_duplicate_user_id :: "nat option"
  scanned_by :: "nat option"
  scan_date :: "nat option"
  company_id :: nat
  raw_html :: "string option"

text \<open>The invoice of the accounting module, as far as the results show it.\<close>

record account_move =
  move_id :: nat
  move_name :: string
  move_state :: string
  amount_total :: pyfloat
  partner_name :: string

text \<open>
  The store: the scan records, newest first (the order \<open>create_date desc\<close> of the
  model), the invoices, the next identifier, the notes posted on records (the record
  and the text), and the log of the pages fetched.
\<close>

record world =
  records :: "scan_record list"
  invoices :: "account_move list"
  next_id :: nat
  chatter :: "(nat \<times> string) list"
  fetched :: "string list"

text \<open>What the accounting steps of \<open>_create_invoice\<close> do for a record.\<close>

datatype acct_outcome =
    SupplierFails exn
  | InvoiceFails nat exn
  | InvoiceCreated nat account_move

text \<open>
  The environment of a call: the company and the user of the session, the clock, the
  names of the users, the sequence of the references, and the collaborators: the
  transport, the browser and the accounting.
\<close>

record env =
  env_company :: nat
  env_user :: nat
  now :: nat
  user_name :: "nat \<Rightarrow> string"
  next_by_code :: "nat \<Rightarrow> string option"
  http_get :: "string \<Rightarrow> http_outcome"
  browser_env :: playwright
  accounting :: "scan_record \<Rightarrow> acct_outcome"

text \<open>
  \<open>fetch_invoice_data_from_dgi\<close>: the fast path, then the render path. The store
  only logs the URL.
\<close>

definition fetch_invoice_data_from_dgi :: "env \<Rightarrow> string \<Rightarrow> world \<Rightarrow> (exn + dgi_data) \<times> world" where
  "fetch_invoice_data_from_dgi e url w =
     (let w' = w\<lparr>fetched := fetched w @ [url]\<rparr>
      in case fetch_dgi_with_requests (http_get e) url of
           Inl x \<Rightarrow> (Inl x, w')
         | Inr (Some data) \<Rightarrow>
             if d_success data then (Inr data, w') else (Inr (render_fetch (browser_env e) url), w')
         | Inr None \<Rightarrow> (Inr (render_fetch (browser_env e) url), w'))"

text \<open>The values of a call of \<open>create\<close>; a key that is not passed is \<open>None\<close>.\<close>

record vals =
  v_qr_uuid :: string
  v_qr_url :: string
  v_state :: "scan_state option"
  v_error_message :: "string option"
  v_scanned_by :: "nat option"
  v_supplier_name :: "pyobj option"
  v_supplier_code_dgi :: "string option"
  v_customer_name :: "string option"
  v_customer_code_dgi :: "string option"
  v_invoice_number_dgi :: "pyobj option"
  v_invoice_date :: "date option"
  v_verification_id :: "string option"
  v_amount_ttc :: "pyfloat option"
  v_raw_html :: "string option"

definition no_vals :: "string \<Rightarrow> string \<Rightarrow> vals" where
  "no_vals uuid url =
     \<lparr>v_qr_uuid = uuid, v_qr_url = url, v_state = None, v_error_message = None,
      v_scanned_by = None, v_supplier_name = None, v_supplier_code_dgi = None,
      v_customer_name = None, v_customer_code_dgi = None, v_invoice_number_dgi = None,
      v_invoice_date = None, v_verification_id = None, v_amount_ttc = None,
      v_raw_html = None\<rparr>"

text \<open>A text field stores no value for \<open>None\<close> and \<open>False\<close>, and the text of any other value.\<close>

definition char_field :: "pyobj option \<Rightarrow> string option" where
  "char_field v =
     (case v of
        None \<Rightarrow> None
      | Some (PyStr s) \<Rightarrow> Some s
      | Some (PyObj s b) \<Rightarrow> if \<not> b \<and> (s = ''None'' \<or> s = ''False'') then None else Some s)"

text \<open>
  The constraint \<open>unique(qr_uuid, company_id)\<close> of the model: it holds for the records
  of every state.
\<close>

definition key_taken :: "world \<Rightarrow> string \<Rightarrow> nat \<Rightarrow> bool" where
  "key_taken w uuid company =
     list_ex (\<lambda>r. qr_uuid r = uuid \<and> company_id r = company) (records w)"

text \<open>
  \<open>create\<close>: the reference comes from the sequence, the fields that are not passed
  take their defaults, and the insertion fails on the uniqueness constraint.
\<close>

definition create :: "env \<Rightarrow> vals \<Rightarrow> world \<Rightarrow> (exn + scan_record) \<times> world" where
  "create e v w =
     (if key_taken w (v_qr_uuid v) (env_company e) then
        (Inl (Exn IntegrityError ''duplicate key value violates unique constraint qr_uuid_unique''), w)
      else
        (let r = \<lparr>rec_id = next_id w,
                  reference = (case next_by_code e (next_id w) of None \<Rightarrow> ''/'' | Some s \<Rightarrow>
                                 if s = [] then ''/'' else s),
                  qr_uuid = v_qr_uuid v,
                  qr_url = v_qr_url v,
                  supplier_name = char_field (v_supplier_name v),
                  supplier_code_dgi = v_supplier_code_dgi v,
                  customer_name = v_customer_name v,
                  customer_code_dgi = v_customer_code_dgi v,
                  invoice_number_dgi = char_field (v_invoice_number_dgi v),
                  invoice_date = v_invoice_date v,
                  verification_id = v_verification_id v,
                  amount_ttc = (case v_amount_ttc v of None \<Rightarrow> Finite 0 | Some a \<Rightarrow> a),
                  invoice_id = None,
                  partner_id = None,
                  state = (case v_state v of None \<Rightarrow> Draft | Some s \<Rightarrow> s),
                  error_message = v_error_message v,
                  duplicate_count = 0,
                  last_duplicate_attempt = None,
                  last_duplicate_user_id = None,
                  scanned_by = (case v_scanned_by v of None \<Rightarrow> Some (env_user e) | Some u \<Rightarrow> Some u),
                  scan_date = Some (now e),
                  company_id = env_company e,
                  raw_html = v_raw_html v\<rparr>
         in (Inr r, w\<lparr>records := r # records w, next_id := Suc (next_id w)\<rparr>)))"

definition browse :: "world \<Rightarrow> nat \<Rightarrow> scan_record option" where
  "browse w i = List.find (\<lambda>r. rec_id r = i) (records w)"

text \<open>\<open>record.write\<close>: the record of that identifier is replaced by its update.\<close>

definition write_record :: "nat \<Rightarrow> (scan_record \<Rightarrow> scan_record) \<Rightarrow> world \<Rightarrow> world" where
  "write_record i f w = w\<lparr>records := map (\<lambda>r. if rec_id r = i then f r else r) (records w)\<rparr>"

text \<open>\<open>check_duplicate\<close>: the search with \<open>limit=1\<close> in the order of the model.\<close>

definition check_duplicate :: "env \<Rightarrow> world \<Rightarrow> string \<Rightarrow> scan_record option" where
  "check_duplicate e w uuid =
     List.find (\<lambda>r. qr_uuid r = uuid \<and> (state r = Done \<or> state r = Processed) \<and>
                     company_id r = env_company e) (records w)"

section \<open>The scan orchestrator\<close>

definition msg_invoice_exists :: string where
  "msg_invoice_exists =
     ''Une facture existe d'' @ [CHR 0xE9] @ ''j'' @ [CHR 0xE0] @ '' pour ce scan.''"

text \<open>
  \<open>_create_invoice\<close>. The supplier, the journal, the account and the invoice are the
  work of the accounting module: \<open>accounting\<close> says whether the search of the supplier
  fails, a later step fails (the partner is then already written on the record), or
  the invoice is created. The exceptions leave the writes done before them in place.
\<close>

definition create_invoice :: "env \<Rightarrow> nat \<Rightarrow> world \<Rightarrow> (exn + account_move) \<times> world" where
  "create_invoice e i w =
     (case browse w i of
        None \<Rightarrow> (Inl (Exn ValueError ''Expected singleton''), w)
      | Some r \<Rightarrow>
          if invoice_id r \<noteq> None then (Inl (Exn UserError msg_invoice_exists), w)
          else
            (case accounting e r of
               SupplierFails x \<Rightarrow> (Inl x, w)
             | InvoiceFails p x \<Rightarrow> (Inl x, write_record i (\<lambda>r. r\<lparr>partner_id := Some p\<rparr>) w)
             | InvoiceCreated p mv \<Rightarrow>
                 (Inr mv,
                  (write_record i
                     (\<lambda>r. r\<lparr>partner_id := Some p, invoice_id := Some (move_id mv), state := Done\<rparr>) w)
                  \<lparr>invoices := mv # invoices w\<rparr>)))"

text \<open>\<open>user_id or self.env.user.id\<close>.\<close>

definition acting_user :: "env \<Rightarrow> nat option \<Rightarrow> nat" where
  "acting_user e user_id =
     (case user_id of None \<Rightarrow> env_user e | Some u \<Rightarrow> if u = 0 then env_user e else u)"

text \<open>The decimal text of a number, for the note of a duplicate.\<close>

function str_nat :: "nat \<Rightarrow> string" where
  "str_nat n = (if n < 10 then [char_of (48 + n)] else str_nat (n div 10) @ [char_of (48 + n mod 10)])"
  by pat_completeness auto
termination
  by (relation "measure id") auto

declare str_nat.simps [simp del]

definition str_int :: "int \<Rightarrow> string" where
  "str_int i = (if i < 0 then ''-'' @ str_nat (nat (- i)) else str_nat (nat i))"

text \<open>The summary of the existing record in the result of a duplicate.\<close>

record snapshot =
  s_id :: nat
  s_reference :: string
  s_supplier_name :: string
  s_supplier_code_dgi :: string
  s_invoice_number_dgi :: string
  s_amount_ttc :: pyfloat
  s_invoice_id :: "nat option"
  s_invoice_name :: "string option"
  s_scan_date :: "nat option"
  s_scanned_by :: string
  s_duplicate_count :: int
  s_last_duplicate_attempt :: "nat option"

definition or_empty :: "string option \<Rightarrow> string" where
  "or_empty v = (case v of None \<Rightarrow> [] | Some s \<Rightarrow> s)"

definition snapshot_of :: "env \<Rightarrow> world \<Rightarrow> scan_record \<Rightarrow> snapshot" where
  "snapshot_of e w r =
     \<lparr>s_id = rec_id r,
      s_reference = reference r,
      s_supplier_name = or_empty (supplier_name r),
      s_supplier_code_dgi = or_empty (supplier_code_dgi r),
      s_invoice_number_dgi = or_empty (invoice_number_dgi r),
      s_amount_ttc = (if float_truth (amount_ttc r) then amount_ttc r else Finite 0),
      s_invoice_id = invoice_id r,
      s_invoice_name =
        (case invoice_id r of
           None \<Rightarrow> None
         | Some i \<Rightarrow> map_option move_name (List.find (\<lambda>m. move_id m = i) (invoices w))),
      s_scan_date = scan_date r,
      s_scanned_by = (case scanned_by r of None \<Rightarrow> [] | Some u \<Rightarrow> user_name e u),
      s_duplicate_count = duplicate_count r,
      s_last_duplicate_attempt = last_duplicate_attempt r\<rparr>"

text \<open>The results of \<open>process_qr_scan\<close>, one constructor for each dictionary it returns.\<close>

datatype scan_result =
    InvalidUrl
  | Duplicate int snapshot
  | DgiError "string option" nat
  | Success nat string account_move
  | InvoiceError string nat

fun success :: "scan_result \<Rightarrow> bool" where
  "success (Success i rf mv) = True"
| "success r = False"

fun error_code :: "scan_result \<Rightarrow> string option" where
  "error_code InvalidUrl = Some ''INVALID_URL''"
| "error_code (Duplicate n s) = Some ''DUPLICATE''"
| "error_code (DgiError m i) = Some ''DGI_ERROR''"
| "error_code (Success i rf mv) = None"
| "error_code (InvoiceError m i) = Some ''INVOICE_ERROR''"

fun result_error :: "scan_result \<Rightarrow> string option" where
  "result_error InvalidUrl = Some (''URL invalide - Impossible d'' @ [CHR 0x27] @ ''extraire l'' @ [CHR 0x27] @ ''UUID'')"
| "result_error (Duplicate n s) =
     Some (''Cette facture a d'' @ [CHR 0xE9] @ ''j'' @ [CHR 0xE0, CHR '' '', CHR 0xE9] @ ''t'' @
           [CHR 0xE9] @ '' scann'' @ [CHR 0xE9] @ ''e'')"
| "result_error (DgiError m i) = m"
| "result_error (Success i rf mv) = None"
| "result_error (InvoiceError m i) =
     Some (''Erreur lors de la cr'' @ [CHR 0xE9] @ ''ation de la facture: '' @ m)"

fun result_record_id :: "scan_result \<Rightarrow> nat option" where
  "result_record_id InvalidUrl = None"
| "result_record_id (Duplicate n s) = Some (s_id s)"
| "result_record_id (DgiError m i) = Some i"
| "result_record_id (Success i rf mv) = Some i"
| "result_record_id (InvoiceError m i) = Some i"

definition duplicate_note :: "env \<Rightarrow> int \<Rightarrow> nat \<Rightarrow> string" where
  "duplicate_note e n u = ''Tentative de scan doublon #'' @ str_int n @ '' par '' @ user_name e u"

definition process_qr_scan ::
  "env \<Rightarrow> string \<Rightarrow> nat option \<Rightarrow> world \<Rightarrow> (exn + scan_result) \<times> world" where
  "process_qr_scan e url user_id w =
     (case extract_uuid_from_url url of
        None \<Rightarrow> (Inr InvalidUrl, w)
      | Some uuid \<Rightarrow>
          if uuid = [] then (Inr InvalidUrl, w)
          else
            (case check_duplicate e w uuid of
               Some existing \<Rightarrow>
                 (let i = rec_id existing;
                      u = acting_user e user_id;
                      w1 = write_record i
                             (\<lambda>r. r\<lparr>duplicate_count := duplicate_count existing + 1,
                                     last_duplicate_attempt := Some (now e),
                                     last_duplicate_user_id := Some u\<rparr>) w;
                      n = (case browse w1 i of None \<Rightarrow> 0 | Some r \<Rightarrow> duplicate_count r);
                      w2 = w1\<lparr>chatter := chatter w1 @ [(i, duplicate_note e n u)]\<rparr>
                  in (case browse w2 i of
                        None \<Rightarrow> (Inl (Exn ValueError ''Expected singleton''), w2)
                      | Some r \<Rightarrow> (Inr (Duplicate (duplicate_count r) (snapshot_of e w2 r)), w2)))
             | None \<Rightarrow>
                 (case fetch_invoice_data_from_dgi e url w of
                    (Inl x, w1) \<Rightarrow> (Inl x, w1)
                  | (Inr dgi_data, w1) \<Rightarrow>
                      if \<not> d_success dgi_data then
                        (case create e
                                ((no_vals uuid url)
                                   \<lparr>v_state := Some Error,
                                    v_error_message :=
                                      Some (case d_error dgi_data of
                                              None \<Rightarrow> ''Erreur inconnue'' | Some m \<Rightarrow> m),
                                    v_scanned_by := Some (acting_user e user_id)\<rparr>) w1 of
                           (Inl x, w2) \<Rightarrow> (Inl x, w2)
                         | (Inr rcd, w2) \<Rightarrow>
                             (Inr (DgiError (d_error dgi_data) (rec_id rcd)), w2))
                      else
                        (case create e
                                ((no_vals uuid url)
                                   \<lparr>v_supplier_name := d_supplier_name dgi_data,
                                    v_supplier_code_dgi := d_supplier_code_dgi dgi_data,
                                    v_customer_name := d_customer_name dgi_data,
                                    v_customer_code_dgi := d_customer_code_dgi dgi_data,
                                    v_invoice_number_dgi := d_invoice_number_dgi dgi_data,
                                    v_invoice_date := d_invoice_date dgi_data,
                                    v_verification_id := d_verification_id dgi_data,
                                    v_amount_ttc :=
                                      Some (case d_amount_ttc dgi_data of
                                              None \<Rightarrow> Finite 0 | Some a \<Rightarrow> a),
                                    v_raw_html := d_raw_html dgi_data,
                                    v_scanned_by := Some (acting_user e user_id),
                                    v_state := Some Draft\<rparr>) w1 of
                           (Inl x, w2) \<Rightarrow> (Inl x, w2)
                         | (Inr rcd, w2) \<Rightarrow>
                             (case create_invoice e (rec_id rcd) w2 of
                                (Inr invoice, w3) \<Rightarrow>
                                  (Inr (Success (rec_id rcd) (reference rcd) invoice), w3)
                              | (Inl x, w3) \<Rightarrow>
                                  (Inr (InvoiceError (exn_str x) (rec_id rcd)),
                                   write_record (rec_id rcd)
                                     (\<lambda>r. r\<lparr>state := Error,
                                             error_message := Some (exn_str x)\<rparr>) w3))))))"

section \<open>The manual retry\<close>

text \<open>\<open>action_retry_create_invoice\<close> of the model: outside its guard it does nothing.\<close>

definition action_retry_create_invoice :: "env \<Rightarrow> nat \<Rightarrow> world \<Rightarrow> (exn + unit) \<times> world" where
  "action_retry_create_invoice e i w =
     (case browse w i of
        None \<Rightarrow> (Inl (Exn ValueError ''Expected singleton''), w)
      | Some r \<Rightarrow>
          if state r = Error \<and> invoice_id r = None then
            (case create_invoice e i w of
               (Inr invoice, w1) \<Rightarrow> (Inr (), w1)
             | (Inl x, w1) \<Rightarrow>
                 (Inl (Exn UserError (''Erreur: '' @ exn_str x)),
                  write_record i (\<lambda>r. r\<lparr>error_message := Some (exn_str x)\<rparr>) w1))
          else (Inr (), w))"

text \<open>The route \<open>retry_error\<close> of the API, after authentication.\<close>

datatype api_result = ApiError string string int | ApiSuccess "scan_record option" account_move

fun api_code :: "api_result \<Rightarrow> string option" where
  "api_code (ApiError c m st) = Some c"
| "api_code (ApiSuccess r mv) = None"

fun state_name :: "scan_state \<Rightarrow> string" where
  "state_name Draft = ''draft''"
| "state_name Done = ''done''"
| "state_name Processed = ''processed''"
| "state_name Error = ''error''"

definition retry_error :: "env \<Rightarrow> nat \<Rightarrow> world \<Rightarrow> api_result \<times> world" where
  "retry_error e record_id w =
     (case browse w record_id of
        None \<Rightarrow> (ApiError ''NOT_FOUND'' (''Enregistrement non trouv'' @ [CHR 0xE9]) 404, w)
      | Some rcd \<Rightarrow>
          if state rcd \<noteq> Error then
            (ApiError ''INVALID_STATE''
               (''L'' @ [CHR 0x27] @ ''enregistrement n'' @ [CHR 0x27] @ ''est pas en erreur ('' @
                [CHR 0xE9] @ ''tat: '' @ state_name (state rcd) @ '')'') 400, w)
          else if invoice_id rcd \<noteq> None then
            (ApiError ''ALREADY_PROCESSED''
               (''Une facture existe d'' @ [CHR 0xE9] @ ''j'' @ [CHR 0xE0] @ '' pour ce scan'') 400, w)
          else
            (case create_invoice e record_id w of
               (Inr invoice, w1) \<Rightarrow> (ApiSuccess (browse w1 record_id) invoice, w1)
             | (Inl x, w1) \<Rightarrow>
                 (ApiError ''RETRY_FAILED''
                    ([CHR 0xC9] @ ''chec de la nouvelle tentative: '' @ exn_str x) 400,
                  write_record record_id
                    (\<lambda>r. r\<lparr>error_message :=
                             Some (''Nouvelle tentative '' @ [CHR 0xE9] @ ''chou'' @ [CHR 0xE9] @
                                   ''e: '' @ exn_str x)\<rparr>) w1)))"

section \<open>Notions of the specification\<close>

text \<open>The events of a launch that succeeds, or gives up, at attempt \<open>k\<close>.\<close>

definition backoff_from :: "nat \<Rightarrow> nat \<Rightarrow> launch_event list" where
  "backoff_from a k = concat (map (\<lambda>j. [Launch j, Sleep (j * 3)]) [a..<k]) @ [Launch k]"

definition is_launch :: "launch_event \<Rightarrow> bool" where
  "is_launch ev = (case ev of Launch n \<Rightarrow> True | Sleep n \<Rightarrow> False)"

section \<open>Facts about characters and the matcher\<close>

lemma code_point_less: "code_point c < 256"
  by (simp add: code_point_def)

lemma code_point_char_of: "n < 256 \<Longrightarrow> code_point (char_of n) = n"
  by (simp add: code_point_def)

lemma code_point_lower:
  "code_point (char_lower c) =
     (if (65 \<le> code_point c \<and> code_point c \<le> 90) \<or>
         (192 \<le> code_point c \<and> code_point c \<le> 222 \<and> code_point c \<noteq> 215)
      then code_point c + 32 else code_point c)"
  using code_point_less [of c] by (simp add: char_lower_def in_range_def code_point_char_of)

lemma code_point_upper:
  "code_point (char_upper c) =
     (if (97 \<le> code_point c \<and> code_point c \<le> 122) \<or>
         (224 \<le> code_point c \<and> code_point c \<le> 254 \<and> code_point c \<noteq> 247)
      then code_point c - 32 else code_point c)"
  using code_point_less [of c] by (simp add: char_upper_def in_range_def code_point_char_of)

lemma code_point_literals:
  "code_point CHR ''0'' = 48" "code_point CHR ''9'' = 57"
  "code_point CHR ''a'' = 97" "code_point CHR ''f'' = 102"
  by (simp_all add: code_point_def)

lemma set_ok_hex: "set_ok hex_set c = is_hex c"
  unfolding set_ok_def hex_set_def is_hex_def
  by (simp add: in_range_def code_point_lower code_point_upper code_point_literals) arith


lemma code_point_inj: "code_point a = code_point b \<Longrightarrow> a = b"
  by (simp add: code_point_def)

lemma lit_ok_hyphen: "lit_ok CHR ''-'' c = (c = CHR ''-'')"
proof -
  have h: "code_point CHR ''-'' = 45" by (simp add: code_point_def)
  have "(char_lower c = char_lower CHR ''-'') = (code_point (char_lower c) = code_point (char_lower CHR ''-''))"
    using code_point_inj by auto
  also have "\<dots> = (code_point c = 45)"
    by (simp add: code_point_lower h)
  also have "\<dots> = (c = CHR ''-'')"
    using code_point_inj [of c "CHR ''-''"] h by auto
  finally show ?thesis by (simp add: lit_ok_def)
qed

text \<open>
  The pattern of the identifier is an instance of a family of patterns, one for each list
  of group lengths; the matcher accepts exactly the hyphenated strings of that list.
\<close>

fun hyph_items :: "nat list \<Rightarrow> item list" where
  "hyph_items [] = []"
| "hyph_items [n] = [Rep n hex_set]"
| "hyph_items (n # m # ns) = Rep n hex_set # Lit CHR ''-'' # hyph_items (m # ns)"

fun hyph_len :: "nat list \<Rightarrow> nat" where
  "hyph_len [] = 0"
| "hyph_len [n] = n"
| "hyph_len (n # m # ns) = Suc n + hyph_len (m # ns)"

lemma hyphenated_length: "hyphenated ns w \<Longrightarrow> length w = hyph_len ns"
  by (induction ns w rule: hyphenated.induct) auto

lemma list_all_hex: "list_all (set_ok hex_set) xs = list_all is_hex xs"
  by (simp add: list_all_iff set_ok_hex)

lemma rx_hyph_items:
  "ns \<noteq> [] \<Longrightarrow>
   rx (hyph_items ns) s st =
     (if hyph_len ns \<le> length s \<and> hyphenated ns (take (hyph_len ns) s)
      then Some (snd st, drop (hyph_len ns) s) else None)"
proof (induction ns arbitrary: s rule: hyph_items.induct)
  case 1
  then show ?case by simp
next
  case (2 n)
  show ?case by (auto simp: list_all_hex)
next
  case (3 n m ns)
  let ?T = "hyph_len (m # ns)"
  show ?case
  proof (cases "n < length s")
    case False
    then show ?thesis by (cases "drop n s") auto
  next
    case True
    then have d: "drop n s = s ! n # drop (Suc n) s"
      by (simp add: Cons_nth_drop_Suc)
    have t: "drop (Suc n) (take (Suc (n + ?T)) s) = take ?T (drop (Suc n) s)"
      by (simp add: drop_take)
    have l: "(Suc (n + ?T) \<le> length s) = (?T \<le> length (drop (Suc n) s))"
      using True by auto
    have ih: "rx (hyph_items (m # ns)) (drop (Suc n) s) st =
       (if ?T \<le> length (drop (Suc n) s) \<and> hyphenated (m # ns) (take ?T (drop (Suc n) s))
        then Some (snd st, drop ?T (drop (Suc n) s)) else None)"
      using "3.IH" by simp
    show ?thesis
      using True
      by (simp add: d lit_ok_hyphen list_all_hex ih t l [symmetric] min_def add.commute
          del: hyphenated.simps(3) hyph_len.simps(3))
         (auto simp: add.commute t)
  qed
qed


text \<open>
  \<open>re_search\<close> finds nothing exactly when no position has a match, and otherwise
  returns the match of the first position that has one.
\<close>

lemma re_search_None:
  "(re_search p s = None) = (\<forall>i\<le>length s. rx p (drop i s) (None, []) = None)"
proof (induction s)
  case Nil
  show ?case by (simp add: re_search.simps split: option.splits)
next
  case (Cons c t)
  have "(\<forall>i\<le>length (c # t). rx p (drop i (c # t)) (None, []) = None) =
        (rx p (c # t) (None, []) = None \<and> (\<forall>i\<le>length t. rx p (drop i t) (None, []) = None))"
    (is "?L = ?R")
  proof
    assume l: ?L
    have "rx p (drop 0 (c # t)) (None, []) = None" using l by blast
    moreover have "\<forall>i\<le>length t. rx p (drop i t) (None, []) = None"
    proof (intro allI impI)
      fix i assume "i \<le> length t"
      then have "rx p (drop (Suc i) (c # t)) (None, []) = None" using l by auto
      then show "rx p (drop i t) (None, []) = None" by simp
    qed
    ultimately show ?R by simp
  next
    assume r: ?R
    show ?L
    proof (intro allI impI)
      fix i assume "i \<le> length (c # t)"
      then show "rx p (drop i (c # t)) (None, []) = None"
        using r by (cases i) auto
    qed
  qed
  then show ?case
    using Cons.IH by (subst re_search.simps) (auto split: option.splits)
qed

lemma re_search_Some:
  "re_search p s = Some (g0, caps) \<Longrightarrow>
   \<exists>i rest. i \<le> length s \<and> (\<forall>j<i. rx p (drop j s) (None, []) = None) \<and>
     rx p (drop i s) (None, []) = Some (caps, rest) \<and>
     g0 = take (length s - i - length rest) (drop i s)"
proof (induction s)
  case Nil
  then show ?case
    by (subst (asm) re_search.simps) (auto split: option.splits)
next
  case (Cons c t)
  show ?case
  proof (cases "rx p (c # t) (None, [])")
    case (Some m)
    obtain caps' rest where m: "m = (caps', rest)" by (cases m)
    from Cons.prems Some m
    have "caps' = caps" "g0 = take (length (c # t) - length rest) (c # t)"
      by (subst (asm) re_search.simps, simp)+
    then have "0 \<le> length (c # t) \<and> (\<forall>j<0. rx p (drop j (c # t)) (None, []) = None) \<and>
       rx p (drop 0 (c # t)) (None, []) = Some (caps, rest) \<and>
       g0 = take (length (c # t) - 0 - length rest) (drop 0 (c # t))"
      using Some m by simp
    then show ?thesis by blast
  next
    case None
    with Cons.prems have "re_search p t = Some (g0, caps)"
      by (subst (asm) re_search.simps) simp
    from Cons.IH [OF this] obtain i rest where
      i: "i \<le> length t" "\<forall>j<i. rx p (drop j t) (None, []) = None"
         "rx p (drop i t) (None, []) = Some (caps, rest)"
         "g0 = take (length t - i - length rest) (drop i t)"
      by blast
    have "\<forall>j<Suc i. rx p (drop j (c # t)) (None, []) = None"
    proof (intro allI impI)
      fix j assume "j < Suc i"
      then show "rx p (drop j (c # t)) (None, []) = None"
        using None i(2) by (cases j) auto
    qed
    then have "Suc i \<le> length (c # t) \<and> (\<forall>j<Suc i. rx p (drop j (c # t)) (None, []) = None) \<and>
       rx p (drop (Suc i) (c # t)) (None, []) = Some (caps, rest) \<and>
       g0 = take (length (c # t) - Suc i - length rest) (drop (Suc i) (c # t))"
      using i by simp
    then show ?thesis by blast
  qed
qed

text \<open>The identifier shape starts at the head of the string.\<close>

definition uuid_at :: "string \<Rightarrow> bool" where
  "uuid_at s = (36 \<le> length s \<and> uuid_shape (take 36 s))"

lemma uuid_pattern_items: "uuid_pattern = hyph_items [8, 4, 4, 4, 12]"
  by (simp add: uuid_pattern_def)

lemma rx_uuid_pattern:
  "rx uuid_pattern s st = (if uuid_at s then Some (snd st, drop 36 s) else None)"
proof -
  have n: "hyph_len [8, 4, 4, 4, 12] = 36" by simp
  have "[8, 4, 4, 4, 12] \<noteq> ([] :: nat list)" by simp
  from rx_hyph_items [OF this, of s st] show ?thesis
    unfolding uuid_pattern_items uuid_at_def uuid_shape_def n .
qed

lemma uuid_shape_length: "uuid_shape w \<Longrightarrow> length w = 36"
  unfolding uuid_shape_def by (drule hyphenated_length) simp

lemma uuid_at_split: "s = pre @ w @ post \<Longrightarrow> uuid_shape w \<Longrightarrow> uuid_at (drop (length pre) s)"
  by (simp add: uuid_at_def uuid_shape_length)

lemma has_uuid_iff: "has_uuid s = (\<exists>i\<le>length s. uuid_at (drop i s))"
proof
  assume "has_uuid s"
  then obtain pre w post where h: "s = pre @ w @ post" "uuid_shape w"
    by (auto simp: has_uuid_def)
  then have "uuid_at (drop (length pre) s)" by (rule uuid_at_split)
  moreover have "length pre \<le> length s" using h by simp
  ultimately show "\<exists>i\<le>length s. uuid_at (drop i s)" by blast
next
  assume "\<exists>i\<le>length s. uuid_at (drop i s)"
  then obtain i where i: "i \<le> length s" "uuid_at (drop i s)" by blast
  have "s = take i s @ take 36 (drop i s) @ drop 36 (drop i s)"
    by (simp only: append_take_drop_id)
  moreover have "uuid_shape (take 36 (drop i s))" using i by (simp add: uuid_at_def)
  ultimately show "has_uuid s" unfolding has_uuid_def by blast
qed

text \<open>
  Claim C4. A string that contains a substring of the shape 8-4-4-4-12 (hexadecimal
  digits in either case) makes \<open>extract_uuid_from_url\<close> return such a substring
  in lower case, namely the leftmost one; a string that contains none makes it return
  \<open>None\<close>. The function is total: it raises nothing on a string.
\<close>

theorem extract_uuid_from_url_leftmost:
  "(has_uuid url \<longrightarrow>
      (\<exists>pre w post. url = pre @ w @ post \<and> uuid_shape w \<and>
         (\<forall>pre' w' post'. url = pre' @ w' @ post' \<and> uuid_shape w' \<longrightarrow> length pre \<le> length pre') \<and>
         extract_uuid_from_url url = Some (py_lower w))) \<and>
   (\<not> has_uuid url \<longrightarrow> extract_uuid_from_url url = None)"
proof (intro conjI impI)
  assume "\<not> has_uuid url"
  then have "\<forall>i\<le>length url. rx uuid_pattern (drop i url) (None, []) = None"
    by (simp add: has_uuid_iff rx_uuid_pattern)
  then have "re_search uuid_pattern url = None" by (simp add: re_search_None)
  then show "extract_uuid_from_url url = None" by (simp add: extract_uuid_from_url_def)
next
  assume "has_uuid url"
  then obtain k where k: "k \<le> length url" "uuid_at (drop k url)"
    by (auto simp: has_uuid_iff)
  then have "rx uuid_pattern (drop k url) (None, []) \<noteq> None"
    by (simp add: rx_uuid_pattern)
  with k(1) have "\<not> (\<forall>i\<le>length url. rx uuid_pattern (drop i url) (None, []) = None)"
    by (intro notI) (drule spec [of _ k], simp)
  then have "re_search uuid_pattern url \<noteq> None"
    by (simp only: re_search_None not_False_eq_True)
  then obtain g0 caps where s: "re_search uuid_pattern url = Some (g0, caps)" by auto
  from re_search_Some [OF s] obtain i rest where
    i: "i \<le> length url" "\<forall>j<i. rx uuid_pattern (drop j url) (None, []) = None"
       "rx uuid_pattern (drop i url) (None, []) = Some (caps, rest)"
       "g0 = take (length url - i - length rest) (drop i url)"
    by blast
  from i(3) have at: "uuid_at (drop i url)" and rest: "rest = drop 36 (drop i url)"
    by (auto simp: rx_uuid_pattern split: if_splits)
  have len: "36 \<le> length url - i" using at by (simp add: uuid_at_def)
  have g0: "g0 = take 36 (drop i url)" using i(4) rest len by simp
  have shape: "uuid_shape g0" using at g0 by (simp add: uuid_at_def)
  have split: "url = take i url @ g0 @ drop 36 (drop i url)"
    unfolding g0 by (simp only: append_take_drop_id)
  have first: "\<forall>pre' w' post'. url = pre' @ w' @ post' \<and> uuid_shape w' \<longrightarrow> length (take i url) \<le> length pre'"
  proof (intro allI impI)
    fix pre' w' post'
    assume h: "url = pre' @ w' @ post' \<and> uuid_shape w'"
    then have "uuid_at (drop (length pre') url)" using uuid_at_split by blast
    then have "rx uuid_pattern (drop (length pre') url) (None, []) \<noteq> None"
      by (simp add: rx_uuid_pattern)
    then have "\<not> length pre' < i" using i(2) by auto
    then show "length (take i url) \<le> length pre'" using i(1) by simp
  qed
  have e: "extract_uuid_from_url url = Some (py_lower g0)"
    by (simp add: extract_uuid_from_url_def s)
  show "\<exists>pre w post. url = pre @ w @ post \<and> uuid_shape w \<and>
         (\<forall>pre' w' post'. url = pre' @ w' @ post' \<and> uuid_shape w' \<longrightarrow> length pre \<le> length pre') \<and>
         extract_uuid_from_url url = Some (py_lower w)"
    apply (rule exI [of _ "take i url"])
    apply (rule exI [of _ g0])
    apply (rule exI [of _ "drop 36 (drop i url)"])
    apply (intro conjI)
       apply (rule split)
      apply (rule shape)
     apply (rule first)
    apply (rule e)
    done
qed

theorem extract_uuid_from_url_leftmost_witness:
  "has_uuid ''https://x/019BD62C-467E-7000-82AC-45C8389C7F05'' \<and>
   (\<exists>pre w post. ''https://x/019BD62C-467E-7000-82AC-45C8389C7F05'' = pre @ w @ post \<and>
      uuid_shape w \<and>
      extract_uuid_from_url ''https://x/019BD62C-467E-7000-82AC-45C8389C7F05'' = Some (py_lower w)) \<and>
   extract_uuid_from_url ''https://x/019BD62C-467E-7000-82AC-45C8389C7F05'' =
     Some ''019bd62c-467e-7000-82ac-45c8389c7f05'' \<and>
   \<not> has_uuid ''https://google.com'' \<and>
   extract_uuid_from_url ''https://google.com'' = None"
proof -
  let ?u = "''https://x/019BD62C-467E-7000-82AC-45C8389C7F05''"
  have sh: "uuid_shape ''019BD62C-467E-7000-82AC-45C8389C7F05''" by code_simp
  have "?u = ''https://x/'' @ ''019BD62C-467E-7000-82AC-45C8389C7F05'' @ []" by simp
  with sh have h: "has_uuid ?u" unfolding has_uuid_def by blast
  have v: "extract_uuid_from_url ?u = Some ''019bd62c-467e-7000-82ac-45c8389c7f05''"
    by code_simp
  have n: "extract_uuid_from_url ''https://google.com'' = None" by code_simp
  have g: "\<not> has_uuid ''https://google.com''"
    using extract_uuid_from_url_leftmost [of "''https://google.com''"] n by auto
  from extract_uuid_from_url_leftmost [of ?u] h
  have "\<exists>pre w post. ?u = pre @ w @ post \<and> uuid_shape w \<and>
      extract_uuid_from_url ?u = Some (py_lower w)"
    by blast
  with h v g n show ?thesis by blast
qed

section \<open>The amount of the content extractor\<close>





































section \<open>The extractor on malformed input\<close>

text \<open>
  Claim C2 says that the extractor never raises, and that a malformed date only leaves
  the date absent. The source guards the date by the shape of the pattern alone and
  converts it with \<open>strptime\<close> outside any handler: a date of the right shape that
  is no calendar date raises \<open>ValueError\<close>, and the fields already read are lost with
  it. An amount without a digit does the same through \<open>float\<close>.
\<close>

theorem extract_dgi_data_from_text_raises:
  "extract_dgi_data_from_text
     (''FOURNISSEUR: ACME - 123K'' @ [newline] @ ''DATE DE FACTURATION: 31/02/2024'') []
   = Inl (Exn ValueError ''day is out of range for month'') \<and>
   extract_dgi_data_from_text ''DATE DE FACTURATION: 99/99/2024'' []
   = Inl (Exn ValueError ''time data does not match format'') \<and>
   extract_dgi_data_from_text ''MONTANT TTC: CFA'' []
   = Inl (Exn ValueError ''could not convert string to float'')"
  by code_simp

section \<open>The launch of the browser\<close>

lemma backoff_from_step: "a < k \<Longrightarrow> backoff_from a k = Launch a # Sleep (a * 3) # backoff_from (Suc a) k"
  by (simp add: backoff_from_def upt_conv_Cons)

lemma backoff_from_self: "backoff_from k k = [Launch k]"
  by (simp add: backoff_from_def)

lemma launch_from_success:
  "a \<le> k \<Longrightarrow> k \<le> n \<Longrightarrow> (\<forall>j. a \<le> j \<and> j < k \<longrightarrow> isl (launch j)) \<Longrightarrow> launch k = Inr b \<Longrightarrow>
   launch_from launch n a le = (Inr b, backoff_from a k)"
proof (induction "k - a" arbitrary: a le)
  case 0
  then have "a = k" by simp
  with 0 show ?case by (subst launch_from.simps) (simp add: backoff_from_self)
next
  case (Suc d)
  then have lt: "a < k" by simp
  then obtain x where x: "launch a = Inl x" using Suc.prems(3) by (cases "launch a") auto
  have ih: "launch_from launch n (Suc a) (Some x) = (Inr b, backoff_from (Suc a) k)"
    using Suc by (intro Suc.hyps(1)) auto
  show ?case
    using lt Suc.prems(2) by (subst launch_from.simps) (simp add: x ih backoff_from_step)
qed

lemma launch_from_failure:
  "a \<le> n \<Longrightarrow> (\<forall>j. a \<le> j \<and> j \<le> n \<longrightarrow> isl (launch j)) \<Longrightarrow>
   launch_from launch n a le = (Inl (projl (launch n)), backoff_from a n)"
proof (induction "n - a" arbitrary: a le)
  case 0
  then have an: "a = n" by simp
  then obtain x where x: "launch n = Inl x" using 0 by (cases "launch n") auto
  have "launch_from launch n (Suc n) (Some x) = (Inl x, [])"
    by (subst launch_from.simps) simp
  then show ?case
    unfolding an by (subst launch_from.simps) (simp add: x backoff_from_self)
next
  case (Suc d)
  then have lt: "a < n" by simp
  then obtain x where x: "launch a = Inl x" using Suc.prems(2) by (cases "launch a") auto
  have ih: "launch_from launch n (Suc a) (Some x) = (Inl (projl (launch n)), backoff_from (Suc a) n)"
    using Suc by (intro Suc.hyps(1)) auto
  show ?case
    using lt by (subst launch_from.simps) (simp add: x ih backoff_from_step)
qed

lemma launch_from_count:
  "length (filter is_launch (snd (launch_from launch n a le))) \<le> Suc n - a"
proof (induction launch n a le rule: launch_from.induct)
  case (1 launch n a le)
  show ?case
  proof (cases "n < a")
    case True
    then show ?thesis
      by (subst launch_from.simps) (simp split: option.splits)
  next
    case False
    show ?thesis
    proof (cases "launch a")
      case (Inr b)
      then show ?thesis using False
        by (subst launch_from.simps) (simp add: is_launch_def)
    next
      case (Inl x)
      have ih: "length (filter is_launch (snd (launch_from launch n (Suc a) (Some x)))) \<le> Suc n - Suc a"
        using 1 False Inl by simp
      then show ?thesis using False Inl
        by (subst launch_from.simps) (auto simp: is_launch_def split: prod.splits)
    qed
  qed
qed

text \<open>
  Claim C9. \<open>_launch_playwright_browser\<close> makes at most \<open>max_retries\<close> launch attempts
  (3 in the fetch). When attempt \<open>k\<close> is the first that succeeds, it has slept \<open>3 j\<close>
  seconds after each failed attempt \<open>j\<close> before it, and returns the browser at once.
  When every attempt fails, it has slept between the attempts, not after the last, and
  raises the error of the last attempt.
\<close>

theorem launch_playwright_browser_backoff:
  "length (filter is_launch (snd (launch_playwright_browser launch n))) \<le> n \<and>
   (1 \<le> k \<and> k \<le> n \<and> (\<forall>j. 1 \<le> j \<and> j < k \<longrightarrow> isl (launch j)) \<and> launch k = Inr b \<longrightarrow>
      launch_playwright_browser launch n = (Inr b, backoff_from 1 k)) \<and>
   (1 \<le> n \<and> (\<forall>j. 1 \<le> j \<and> j \<le> n \<longrightarrow> isl (launch j)) \<longrightarrow>
      launch_playwright_browser launch n = (Inl (projl (launch n)), backoff_from 1 n))"
proof (intro conjI impI)
  show "length (filter is_launch (snd (launch_playwright_browser launch n))) \<le> n"
    using launch_from_count [of launch n 1 None] by (simp add: launch_playwright_browser_def)
next
  assume "1 \<le> k \<and> k \<le> n \<and> (\<forall>j. 1 \<le> j \<and> j < k \<longrightarrow> isl (launch j)) \<and> launch k = Inr b"
  then show "launch_playwright_browser launch n = (Inr b, backoff_from 1 k)"
    unfolding launch_playwright_browser_def by (intro launch_from_success) auto
next
  assume "1 \<le> n \<and> (\<forall>j. 1 \<le> j \<and> j \<le> n \<longrightarrow> isl (launch j))"
  then show "launch_playwright_browser launch n = (Inl (projl (launch n)), backoff_from 1 n)"
    unfolding launch_playwright_browser_def by (intro launch_from_failure) auto
qed

theorem launch_playwright_browser_backoff_witness:
  "launch_playwright_browser
     (\<lambda>n. if n < 3 then Inl (Exn OtherError ''SIGTRAP'') else Inr (Browser 7)) 3
   = (Inr (Browser 7), [Launch 1, Sleep 3, Launch 2, Sleep 6, Launch 3]) \<and>
   launch_playwright_browser (\<lambda>n. Inl (Exn OtherError ''SIGTRAP'')) 3
   = (Inl (Exn OtherError ''SIGTRAP''), [Launch 1, Sleep 3, Launch 2, Sleep 6, Launch 3])"
proof -
  let ?l = "\<lambda>n::nat. if n < 3 then Inl (Exn OtherError ''SIGTRAP'') else Inr (Browser 7)"
  let ?f = "\<lambda>n::nat. (Inl (Exn OtherError ''SIGTRAP'') :: exn + browser)"
  have t: "backoff_from 1 3 = [Launch 1, Sleep 3, Launch 2, Sleep 6, Launch 3]"
    by code_simp
  have h1: "1 \<le> (3::nat) \<and> (3::nat) \<le> 3 \<and> (\<forall>j. 1 \<le> j \<and> j < 3 \<longrightarrow> isl (?l j)) \<and>
            ?l 3 = Inr (Browser 7)"
    by simp
  have h2: "1 \<le> (3::nat) \<and> (\<forall>j. 1 \<le> j \<and> j \<le> 3 \<longrightarrow> isl (?f j))"
    by simp
  have a: "launch_playwright_browser ?l 3 = (Inr (Browser 7), backoff_from 1 3)"
    using launch_playwright_browser_backoff [of ?l 3 3 "Browser 7"] h1 by blast
  have b: "launch_playwright_browser ?f 3 = (Inl (projl (?f 3)), backoff_from 1 3)"
    using launch_playwright_browser_backoff [of ?f 3 3 "Browser 7"] h2 by blast
  show ?thesis by (simp only: a b t sum.sel simp_thms)
qed

end
